theory Spec2Isabelle
  imports Complex_Main "HOL-Library.AList"
begin

section \<open>Values shared by both modules\<close>

text \<open>
  Python exceptions are values of the type \<open>error\<close>; a call that may raise returns
  \<open>error + 'a\<close> with \<open>Inl\<close> for the exception.  An unset attribute (one that
  \<open>__init__\<close> never assigns) is \<open>None\<close> of an option field and reading it is
  \<open>AttributeError\<close> with the attribute's name.  Python floats are idealised as
  reals, Python ints are \<open>int\<close>.  The state an object is left in when a method
  raises is not part of the model: \<open>Inl\<close> carries the exception only.
\<close>

datatype error =
    ValueError
  | RuntimeError
  | AttributeError string
  | KeyError string
  | IndexError
  | OSError
  | PybulletError

text \<open>
  The values \<open>json.dump\<close> accepts, as far as the action log holds them: ints,
  floats, lists and dicts with string keys.  A dict is an association list in
  insertion order.
\<close>

datatype json =
    JInt int
  | JFloat real
  | JList "json list"
  | JDict "(string \<times> json) list"

text \<open>\<open>ndarray.tolist()\<close> of a one-dimensional float array.\<close>

definition tolist :: "real list \<Rightarrow> json" where
  "tolist xs = JList (map JFloat xs)"

section \<open>trifinger\_platform.py: the observation classes\<close>

record ObjectPose =
  position :: "real list"
  orientation :: "real list"
  timestamp :: "real option"
  confidence :: real

record 'img CameraObservation =
  image :: "'img option"
  timestamp :: "real option"

record 'img TriCameraObservation =
  cameras :: "'img CameraObservation list"

text \<open>The three constructors, with the defaults their \<open>__init__\<close> assigns.\<close>

definition ObjectPose_init :: ObjectPose where
  "ObjectPose_init =
     \<lparr>ObjectPose.position = [0, 0, 0], orientation = [0, 0, 0, 0],
      ObjectPose.timestamp = Some 0, confidence = 1\<rparr>"

definition CameraObservation_init :: "'img CameraObservation" where
  "CameraObservation_init = \<lparr>image = None, CameraObservation.timestamp = None\<rparr>"

definition TriCameraObservation_init :: "'img TriCameraObservation" where
  "TriCameraObservation_init = \<lparr>cameras = replicate 3 CameraObservation_init\<rparr>"

section \<open>The external collaborators of the platform\<close>

text \<open>
  \<open>simfinger.Action\<close>: the four arrays the platform reads from an action.
\<close>

record Action =
  torque :: "real list"
  position :: "real list"
  position_kp :: "real list"
  position_kd :: "real list"

text \<open>
  Modelled from the spec: \<open>SimFinger\<close>, the cube (\<open>collision_objects.Block\<close>), the
  cameras (\<open>camera.TriFingerCameras\<close>) and the file system are not among the
  sources.  They are parameters of the model: \<open>'w\<close> is the state of the simulated
  world they all look at, and the record below holds the calls the platform makes
  on them (section 4.2 of the spec lists the stepper's: \<open>append_desired_action(action)
  -> TimeIndex\<close>, \<open>get_timestamp_ms(t)\<close>, \<open>get_current_timeindex() -> TimeIndex\<close>).
  Only the stepper changes the world, and the calls return: what the
  collaborators raise on their own is not part of the model.  \<open>fs_open_w f\<close>
  says whether \<open>open(f, "w")\<close> succeeds.
\<close>

record ('w, 'img) env =
  simfinger_append_desired_action :: "Action \<Rightarrow> 'w \<Rightarrow> int \<times> 'w"
  get_timestamp_ms :: "'w \<Rightarrow> int \<Rightarrow> real"
  get_current_timeindex :: "'w \<Rightarrow> int"
  cube_get_state :: "'w \<Rightarrow> real list \<times> real list"
  tricamera_get_images :: "'w \<Rightarrow> 'img list"
  fs_open_w :: "string \<Rightarrow> bool"

section \<open>trifinger\_platform.py: TriFingerPlatform\<close>

text \<open>
  The attributes of a platform object.  \<open>simfinger\<close> is the world the stepper,
  the cube and the cameras share.  \<open>object_pose_t\<close> and \<open>camera_observation_t\<close>
  are the attributes \<open>_object_pose_t\<close> and \<open>_camera_observation_t\<close>, which
  \<open>__init__\<close> does not assign: \<open>None\<close> is the unset attribute.
\<close>

record ('w, 'img) TriFingerPlatform =
  camera_rate_fps :: int
  enable_cameras :: bool
  time_step :: real
  next_camera_update_step :: int
  simfinger :: 'w
  action_log :: "(string \<times> json) list"
  object_pose_t :: "ObjectPose option"
  camera_observation_t :: "'img TriCameraObservation option"

definition np_deg2rad :: "real \<Rightarrow> real" where
  "np_deg2rad x = x * pi / 180"

text \<open>
  \<open>__init__\<close>.  Creating the \<open>SimFinger\<close>, resetting the fingers and placing the
  cube are calls on the collaborators: \<open>w0\<close> is the world they leave behind, and
  \<open>initial_object_pose\<close> is the pose given or, when none was given, the one
  \<open>move_cube.sample_goal\<close> returned.
\<close>

definition TriFingerPlatform_init ::
  "'w \<Rightarrow> ObjectPose \<Rightarrow> bool \<Rightarrow> ('w, 'img) TriFingerPlatform" where
  "TriFingerPlatform_init w0 initial_object_pose enable_cameras' =
     (let initial_position =
            concat (replicate 3 [0, np_deg2rad (- 70), np_deg2rad (- 130)])
      in \<lparr>camera_rate_fps = 30,
          enable_cameras = enable_cameras',
          time_step = 4 / 1000,
          next_camera_update_step = 0,
          simfinger = w0,
          action_log =
            [(''initial_robot_position'', tolist initial_position),
             (''initial_object_pose'',
                JDict [(''position'', tolist (ObjectPose.position initial_object_pose)),
                       (''orientation'', tolist (orientation initial_object_pose))]),
             (''actions'', JList [])],
          object_pose_t = None,
          camera_observation_t = None\<rparr>)"

definition get_time_step :: "('w, 'img) TriFingerPlatform \<Rightarrow> real" where
  "get_time_step self = time_step self"

text \<open>\<open>_get_current_object_pose(t=None)\<close>.\<close>

definition get_current_object_pose ::
  "('w, 'img) env \<Rightarrow> ('w, 'img) TriFingerPlatform \<Rightarrow> int option \<Rightarrow> ObjectPose" where
  "get_current_object_pose E self t =
     (let cube_state = cube_get_state E (simfinger self);
          pose = ObjectPose_init;
          pose = pose\<lparr>ObjectPose.position := fst cube_state\<rparr>;
          pose = pose\<lparr>orientation := snd cube_state\<rparr>;
          pose = pose\<lparr>confidence := 1\<rparr>
      in case t of
           None \<Rightarrow> pose\<lparr>ObjectPose.timestamp := None\<rparr>
         | Some t' \<Rightarrow>
             pose\<lparr>ObjectPose.timestamp := Some (get_timestamp_ms E (simfinger self) t')\<rparr>)"

text \<open>
  The loop \<open>for i, image in enumerate(images)\<close> of
  \<open>_get_current_camera_observation\<close>: \<open>i\<close> is the index of the next image.
  An index beyond the cameras of the observation raises.
\<close>

fun fill_cameras ::
  "'img CameraObservation list \<Rightarrow> nat \<Rightarrow> real option \<Rightarrow> 'img list
     \<Rightarrow> error + 'img CameraObservation list" where
  "fill_cameras cams i ts [] = Inr cams"
| "fill_cameras cams i ts (img # images) =
     (if i < length cams
      then fill_cameras
             (cams[i := (cams ! i)\<lparr>image := Some img, CameraObservation.timestamp := ts\<rparr>])
             (Suc i) ts images
      else Inl IndexError)"

text \<open>\<open>_get_current_camera_observation(t=None)\<close>.\<close>

definition get_current_camera_observation ::
  "('w, 'img) env \<Rightarrow> ('w, 'img) TriFingerPlatform \<Rightarrow> int option
     \<Rightarrow> error + 'img TriCameraObservation" where
  "get_current_camera_observation E self t =
     (let images = tricamera_get_images E (simfinger self);
          observation = TriCameraObservation_init;
          timestamp' =
            (case t of None \<Rightarrow> None
             | Some t' \<Rightarrow> Some (get_timestamp_ms E (simfinger self) t'))
      in case fill_cameras (cameras observation) 0 timestamp' images of
           Inl e \<Rightarrow> Inl e
         | Inr cams \<Rightarrow> Inr (observation\<lparr>cameras := cams\<rparr>))"

text \<open>
  The block \<open>if has_camera_update:\<close> of \<open>append_desired_action\<close>, run after the
  stepper returned \<open>t\<close>: the timestamp in seconds is written into the cached pose
  and, with cameras, into every camera of the cached observation.
\<close>

definition set_camera_timestamps ::
  "('w, 'img) env \<Rightarrow> ('w, 'img) TriFingerPlatform \<Rightarrow> int
     \<Rightarrow> error + ('w, 'img) TriFingerPlatform" where
  "set_camera_timestamps E self t =
     (let camera_timestamp_s = get_timestamp_ms E (simfinger self) t / 1000
      in case object_pose_t self of
           None \<Rightarrow> Inl (AttributeError ''_object_pose_t'')
         | Some pose \<Rightarrow>
             (let self = self\<lparr>object_pose_t :=
                           Some (pose\<lparr>ObjectPose.timestamp := Some camera_timestamp_s\<rparr>)\<rparr>
              in if enable_cameras self
                 then (case camera_observation_t self of
                         None \<Rightarrow> Inl (AttributeError ''_camera_observation_t'')
                       | Some obs \<Rightarrow>
                           Inr (self\<lparr>camera_observation_t :=
                                  Some (obs\<lparr>cameras :=
                                    map (\<lambda>c. c\<lparr>CameraObservation.timestamp :=
                                                  Some camera_timestamp_s\<rparr>)
                                        (cameras obs)\<rparr>)\<rparr>))
                 else Inr self))"

text \<open>The dict appended to the list under \<open>"actions"\<close>.\<close>

definition action_entry :: "int \<Rightarrow> Action \<Rightarrow> json" where
  "action_entry t action =
     JDict [(''t'', JInt t),
            (''torque'', tolist (torque action)),
            (''position'', tolist (Action.position action)),
            (''position_kp'', tolist (position_kp action)),
            (''position_kd'', tolist (position_kd action))]"

text \<open>\<open>self._action_log["actions"].append(entry)\<close>.\<close>

definition log_append_action ::
  "(string \<times> json) list \<Rightarrow> json \<Rightarrow> error + (string \<times> json) list" where
  "log_append_action log' entry =
     (case map_of log' ''actions'' of
        None \<Rightarrow> Inl (KeyError ''actions'')
      | Some (JList xs) \<Rightarrow> Inr (AList.update ''actions'' (JList (xs @ [entry])) log')
      | Some _ \<Rightarrow> Inl (AttributeError ''append''))"

text \<open>
  \<open>append_desired_action(action)\<close>: the new time index and the platform after the
  call.
\<close>

definition append_desired_action ::
  "('w, 'img) env \<Rightarrow> ('w, 'img) TriFingerPlatform \<Rightarrow> Action
     \<Rightarrow> error + (int \<times> ('w, 'img) TriFingerPlatform)" where
  "append_desired_action E self action =
     (let has_camera_update = True;
          self = self\<lparr>object_pose_t := Some (get_current_object_pose E self None)\<rparr>
      in case (if enable_cameras self
               then (case get_current_camera_observation E self None of
                       Inl e \<Rightarrow> Inl e
                     | Inr obs \<Rightarrow> Inr (self\<lparr>camera_observation_t := Some obs\<rparr>))
               else Inr self) of
           Inl e \<Rightarrow> Inl e
         | Inr self \<Rightarrow>
             (let (t, w) = simfinger_append_desired_action E action (simfinger self);
                  self = self\<lparr>simfinger := w\<rparr>
              in case (if has_camera_update then set_camera_timestamps E self t
                       else Inr self) of
                   Inl e \<Rightarrow> Inl e
                 | Inr self \<Rightarrow>
                     (case log_append_action (action_log self) (action_entry t action) of
                        Inl e \<Rightarrow> Inl e
                      | Inr log' \<Rightarrow> Inr (t, self\<lparr>action_log := log'\<rparr>))))"

text \<open>\<open>get_object_pose(t)\<close>.\<close>

definition get_object_pose ::
  "('w, 'img) env \<Rightarrow> ('w, 'img) TriFingerPlatform \<Rightarrow> int \<Rightarrow> error + ObjectPose" where
  "get_object_pose E self t =
     (let current_t = get_current_timeindex E (simfinger self)
      in if t = current_t
         then (case object_pose_t self of
                 None \<Rightarrow> Inl (AttributeError ''_object_pose_t'')
               | Some pose \<Rightarrow> Inr pose)
         else if t = current_t + 1
         then Inr (get_current_object_pose E self (Some t))
         else Inl ValueError)"

text \<open>\<open>get_camera_observation(t)\<close>.\<close>

definition get_camera_observation ::
  "('w, 'img) env \<Rightarrow> ('w, 'img) TriFingerPlatform \<Rightarrow> int
     \<Rightarrow> error + 'img TriCameraObservation" where
  "get_camera_observation E self t =
     (if \<not> enable_cameras self then Inl RuntimeError
      else
        (let current_t = get_current_timeindex E (simfinger self)
         in if t = current_t
            then (case camera_observation_t self of
                    None \<Rightarrow> Inl (AttributeError ''_camera_observation_t'')
                  | Some obs \<Rightarrow> Inr obs)
            else if t = current_t + 1
            then get_current_camera_observation E self (Some t)
            else Inl ValueError))"

text \<open>
  \<open>store_action_log(filename)\<close>: the platform after the call and the files, where
  \<open>filename\<close> holds the document \<open>json.dump\<close> was given.
\<close>

definition store_action_log ::
  "('w, 'img) env \<Rightarrow> ('w, 'img) TriFingerPlatform \<Rightarrow> string \<Rightarrow> (string \<rightharpoonup> json)
     \<Rightarrow> error + (('w, 'img) TriFingerPlatform \<times> (string \<rightharpoonup> json))" where
  "store_action_log E self filename files =
     (let t = get_current_timeindex E (simfinger self)
      in case get_object_pose E self t of
           Inl e \<Rightarrow> Inl e
         | Inr object_pose \<Rightarrow>
             (let self = self\<lparr>action_log :=
                    AList.update ''final_object_pose''
                      (JDict [(''position'', tolist (ObjectPose.position object_pose)),
                              (''orientation'', tolist (orientation object_pose))])
                      (action_log self)\<rparr>
              in if fs_open_w E filename
                 then Inr (self, files(filename \<mapsto> JDict (action_log self)))
                 else Inl OSError))"


text \<open>
  The states of a platform object: \<open>reaches E self0 n self\<close> when \<open>self\<close> is what
  successful calls of the two methods that change the object,
  \<open>append_desired_action\<close> and \<open>store_action_log\<close>, make of \<open>self0\<close>, \<open>n\<close> of the
  calls being calls of \<open>append_desired_action\<close>.
\<close>

inductive reaches ::
  "('w, 'img) env \<Rightarrow> ('w, 'img) TriFingerPlatform \<Rightarrow> nat \<Rightarrow> ('w, 'img) TriFingerPlatform
     \<Rightarrow> bool"
  for E :: "('w, 'img) env" and self0 :: "('w, 'img) TriFingerPlatform" where
  reaches_init: "reaches E self0 0 self0"
| reaches_append:
    "reaches E self0 n self \<Longrightarrow> append_desired_action E self action = Inr (t, self')
       \<Longrightarrow> reaches E self0 (Suc n) self'"
| reaches_store:
    "reaches E self0 n self \<Longrightarrow> store_action_log E self filename files = Inr (self', files')
       \<Longrightarrow> reaches E self0 n self'"

section \<open>base\_finger.py: BaseFinger\<close>

text \<open>
  Modelled from the spec: the module \<open>finger_types_data\<close> is not among the sources.
  Its table is a parameter, an association list from the name of a finger type to
  the URDF file and the number of fingers; the three functions \<open>BaseFinger\<close>
  calls look a name up in it, and an unknown name fails fast (section 7 of the
  spec: UnknownFingerType).
\<close>

type_synonym finger_types_data = "(string \<times> (string \<times> int)) list"

definition check_finger_type :: "finger_types_data \<Rightarrow> string \<Rightarrow> error + string" where
  "check_finger_type tbl name =
     (case map_of tbl name of None \<Rightarrow> Inl ValueError | Some _ \<Rightarrow> Inr name)"

definition get_finger_urdf :: "finger_types_data \<Rightarrow> string \<Rightarrow> error + string" where
  "get_finger_urdf tbl name =
     (case map_of tbl name of None \<Rightarrow> Inl ValueError | Some (urdf_file, n) \<Rightarrow> Inr urdf_file)"

definition get_number_of_fingers :: "finger_types_data \<Rightarrow> string \<Rightarrow> error + int" where
  "get_number_of_fingers tbl name =
     (case map_of tbl name of None \<Rightarrow> Inl ValueError | Some (urdf_file, n) \<Rightarrow> Inr n)"

text \<open>
  Modelled from the spec: the physics backend (\<open>pybullet\<close>) and the \<open>warnings\<close>
  module are not among the sources.  The process holds the backend's connection
  (\<open>None\<close> when not connected) and the warnings emitted so far.  Disconnecting
  without a connection is the backend's error.
\<close>

datatype connection_mode = GUI | DIRECT

record process =
  pybullet_connection :: "connection_mode option"
  warnings :: "string list"

definition pybullet_connect :: "connection_mode \<Rightarrow> process \<Rightarrow> process" where
  "pybullet_connect mode pr = pr\<lparr>pybullet_connection := Some mode\<rparr>"

definition pybullet_isConnected :: "process \<Rightarrow> bool" where
  "pybullet_isConnected pr = (pybullet_connection pr \<noteq> None)"

definition pybullet_disconnect :: "process \<Rightarrow> error + process" where
  "pybullet_disconnect pr =
     (if pybullet_connection pr = None then Inl PybulletError
      else Inr (pr\<lparr>pybullet_connection := None\<rparr>))"

definition warnings_warn :: "string \<Rightarrow> process \<Rightarrow> process" where
  "warnings_warn message pr = pr\<lparr>warnings := warnings pr @ [message]\<rparr>"

text \<open>
  The attributes of a \<open>BaseFinger\<close>.  \<open>enable_simulation\<close> is not assigned by
  \<open>BaseFinger\<close> itself: \<open>__init__\<close> reads it in \<open>__connect_to_simulation\<close>, so
  the subclass has assigned it on every object whose construction completes, and
  the constructor below takes it as an argument.  The path of the URDF file and
  the kinematics object are left out; \<open>urdf_file\<close> is the file name looked up in
  the table.
\<close>

record BaseFinger =
  enable_visualization :: bool
  finger_type :: string
  urdf_file :: string
  number_of_fingers :: int
  link_names :: "string list"
  tip_link_names :: "string list"
  enable_simulation :: bool

definition deprecation_message :: string where
  "deprecation_message =
     ''Finger types 'single' and 'tri' are deprecated.'' @
     '' Use 'fingerone' and 'trifingerone' instead.''"

text \<open>
  \<open>__set_finger_type_dependency\<close>: the URDF file, the number of fingers, and the
  process with the warning, if one was emitted.
\<close>

definition set_finger_type_dependency ::
  "finger_types_data \<Rightarrow> string \<Rightarrow> process \<Rightarrow> error + (string \<times> int \<times> process)" where
  "set_finger_type_dependency tbl finger_type' pr =
     (let pr = (if finger_type' \<in> set [''single'', ''tri'']
                then warnings_warn deprecation_message pr else pr)
      in case get_finger_urdf tbl finger_type' of
           Inl e \<Rightarrow> Inl e
         | Inr urdf_file' \<Rightarrow>
             (case get_number_of_fingers tbl finger_type' of
                Inl e \<Rightarrow> Inl e
              | Inr n \<Rightarrow> Inr (urdf_file', n, pr)))"

text \<open>\<open>__init_joint_lists\<close>: \<open>link_names\<close> and \<open>tip_link_names\<close>.\<close>

definition init_joint_lists :: "int \<Rightarrow> string list \<times> string list" where
  "init_joint_lists number_of_fingers' =
     (if number_of_fingers' = 1
      then ([''finger_upper_link'',
             ''finger_middle_link'',
             ''finger_lower_link''],
            [''finger_tip_link''])
      else ([''finger_upper_link_0'',
             ''finger_middle_link_0'',
             ''finger_lower_link_0'',
             ''finger_upper_link_120'',
             ''finger_middle_link_120'',
             ''finger_lower_link_120'',
             ''finger_upper_link_240'',
             ''finger_middle_link_240'',
             ''finger_lower_link_240''],
            [''finger_tip_link_0'',
             ''finger_tip_link_120'',
             ''finger_tip_link_240'']))"

text \<open>\<open>__connect_to_simulation\<close>.\<close>

definition connect_to_simulation :: "BaseFinger \<Rightarrow> process \<Rightarrow> process" where
  "connect_to_simulation self pr =
     (if \<not> enable_simulation self then pr
      else if enable_visualization self then pybullet_connect GUI pr
      else pybullet_connect DIRECT pr)"

text \<open>\<open>_disconnect_from_simulation\<close>.\<close>

definition disconnect_from_simulation ::
  "BaseFinger \<Rightarrow> process \<Rightarrow> error + (BaseFinger \<times> process)" where
  "disconnect_from_simulation self pr =
     (if enable_simulation self
      then (case (if pybullet_isConnected pr then pybullet_disconnect pr else Inr pr) of
              Inl e \<Rightarrow> Inl e
            | Inr pr' \<Rightarrow> Inr (self\<lparr>enable_simulation := False\<rparr>, pr'))
      else Inr (self, pr))"

text \<open>
  \<open>__init__\<close>, up to the connection: \<open>enable_simulation'\<close> is the flag the
  subclass assigned.
\<close>

definition BaseFinger_init ::
  "finger_types_data \<Rightarrow> bool \<Rightarrow> process \<Rightarrow> string \<Rightarrow> bool
     \<Rightarrow> error + (BaseFinger \<times> process)" where
  "BaseFinger_init tbl enable_simulation' pr finger_type' enable_visualization' =
     (case check_finger_type tbl finger_type' of
        Inl e \<Rightarrow> Inl e
      | Inr checked \<Rightarrow>
          (case set_finger_type_dependency tbl checked pr of
             Inl e \<Rightarrow> Inl e
           | Inr (urdf_file', n, pr) \<Rightarrow>
               (let (links, tips) = init_joint_lists n;
                    self = \<lparr>enable_visualization = enable_visualization',
                            finger_type = checked,
                            urdf_file = urdf_file',
                            number_of_fingers = n,
                            link_names = links,
                            tip_link_names = tips,
                            enable_simulation = enable_simulation'\<rparr>
                in Inr (self, connect_to_simulation self pr))))"

section \<open>Instances of the collaborators\<close>

text \<open>
  Modelled from the spec: a stepper that advances the time index by one per call
  and returns the index of the step just completed, with a time step of 4 ms
  (section 4.2), a cube that moves with the time index, and three cameras.  The
  world is the time index.  The theorems below hold for every collaborator; this
  one shows that their hypotheses can be met.
\<close>

definition example_env :: "(int, nat) env" where
  "example_env =
     \<lparr>simfinger_append_desired_action = (\<lambda>action w. (w + 1, w + 1)),
      get_timestamp_ms = (\<lambda>w t. 4 * real_of_int t),
      get_current_timeindex = (\<lambda>w. w),
      cube_get_state = (\<lambda>w. ([0, 0, real_of_int w], [0, 0, 0, 1])),
      tricamera_get_images = (\<lambda>w. [60, 180, 300]),
      fs_open_w = (\<lambda>filename. True)\<rparr>"

definition example_pose :: ObjectPose where
  "example_pose =
     \<lparr>ObjectPose.position = [0, 0, 1 / 20], orientation = [0, 0, 0, 1],
      ObjectPose.timestamp = None, confidence = 1\<rparr>"

definition example_action :: Action where
  "example_action =
     \<lparr>torque = [1 / 10, 0, - 1 / 10], Action.position = [0, 0, 0],
      position_kp = [15, 15, 9], position_kd = [1 / 2, 1, 1 / 2]\<rparr>"

text \<open>
  Modelled from the spec: a table with the two finger types the deprecation
  warning recommends, their deprecated aliases, and the type the platform uses.
\<close>

definition example_finger_types_data :: finger_types_data where
  "example_finger_types_data =
     [(''fingerone'', (''finger.urdf'', 1)),
      (''single'', (''finger.urdf'', 1)),
      (''trifingerone'', (''trifinger.urdf'', 3)),
      (''tri'', (''trifinger.urdf'', 3)),
      (''trifingerpro'', (''pro/trifingerpro.urdf'', 3))]"

definition example_process :: process where
  "example_process = \<lparr>pybullet_connection = None, warnings = []\<rparr>"

text \<open>
  Modelled from the spec: the stepper's contract of section 4.2, "one call
  advances simulation by exactly one fixed time step and returns the index of the
  step just completed".
\<close>

definition stepper_returns_current :: "('w, 'img) env \<Rightarrow> bool" where
  "stepper_returns_current E =
     (\<forall>action w. fst (simfinger_append_desired_action E action w) =
        get_current_timeindex E (snd (simfinger_append_desired_action E action w)))"

definition stepper_advances_one :: "('w, 'img) env \<Rightarrow> bool" where
  "stepper_advances_one E =
     (\<forall>action w. get_current_timeindex E (snd (simfinger_append_desired_action E action w)) =
        get_current_timeindex E w + 1)"

text \<open>
  Modelled from the spec: a \<open>TriCameraObservation\<close> is "a fixed ordered set of
  exactly 3 CameraObservations"; the cameras deliver three images.
\<close>

definition three_cameras :: "('w, 'img) env \<Rightarrow> bool" where
  "three_cameras E = (\<forall>w. length (tricamera_get_images E w) = 3)"

section \<open>Facts about the platform\<close>

lemma tolist_inject: "tolist xs = tolist ys \<longleftrightarrow> xs = ys"
  by (simp add: tolist_def inj_def)

text \<open>The camera loop fails exactly when there are more images than cameras.\<close>

lemma fill_cameras_isl:
  "isl (fill_cameras cams i ts images) \<longleftrightarrow> images \<noteq> [] \<and> length cams < i + length images"
  by (induction images arbitrary: cams i) auto

lemma get_current_camera_observation_update [simp]:
  "get_current_camera_observation E (self\<lparr>object_pose_t := x\<rparr>) t =
     get_current_camera_observation E self t"
  by (cases t) (simp_all add: get_current_camera_observation_def Let_def)

lemma get_current_object_pose_update [simp]:
  "get_current_object_pose E (self\<lparr>object_pose_t := x\<rparr>) t = get_current_object_pose E self t"
  "get_current_object_pose E (self\<lparr>camera_observation_t := y\<rparr>) t = get_current_object_pose E self t"
  "get_current_object_pose E (self\<lparr>action_log := z\<rparr>) t = get_current_object_pose E self t"
  by (cases t; simp add: get_current_object_pose_def Let_def)+

text \<open>\<open>append_desired_action\<close> without and with cameras, as one expression each.\<close>

lemma append_desired_action_no_cameras:
  assumes "\<not> enable_cameras self"
  shows "append_desired_action E self action =
     (let (t, w) = simfinger_append_desired_action E action (simfinger self)
      in case log_append_action (action_log self) (action_entry t action) of
           Inl e \<Rightarrow> Inl e
         | Inr log' \<Rightarrow>
             Inr (t, self\<lparr>simfinger := w, action_log := log',
                    object_pose_t :=
                      Some ((get_current_object_pose E self None)
                        \<lparr>ObjectPose.timestamp := Some (get_timestamp_ms E w t / 1000)\<rparr>)\<rparr>))"
  using assms
  by (simp add: append_desired_action_def set_camera_timestamps_def Let_def
        split: prod.splits sum.splits)

lemma append_desired_action_cameras:
  assumes "enable_cameras self"
  shows "append_desired_action E self action =
     (case get_current_camera_observation E self None of
        Inl e \<Rightarrow> Inl e
      | Inr obs \<Rightarrow>
     (let (t, w) = simfinger_append_desired_action E action (simfinger self)
      in case log_append_action (action_log self) (action_entry t action) of
           Inl e \<Rightarrow> Inl e
         | Inr log' \<Rightarrow>
             Inr (t, self\<lparr>simfinger := w, action_log := log',
                    object_pose_t :=
                      Some ((get_current_object_pose E self None)
                        \<lparr>ObjectPose.timestamp := Some (get_timestamp_ms E w t / 1000)\<rparr>),
                    camera_observation_t :=
                      Some (obs\<lparr>cameras :=
                              map (\<lambda>c. c\<lparr>CameraObservation.timestamp :=
                                     Some (get_timestamp_ms E w t / 1000)\<rparr>)
                                (cameras obs)\<rparr>)\<rparr>)))"
  using assms
  by (simp add: append_desired_action_def set_camera_timestamps_def Let_def
        split: prod.splits sum.splits)

lemma log_append_action_actions:
  assumes "map_of log' ''actions'' = Some (JList xs)"
  shows "log_append_action log' entry =
           Inr (AList.update ''actions'' (JList (xs @ [entry])) log')"
  using assms by (simp add: log_append_action_def)

lemma log_append_action_Inr:
  assumes "log_append_action log' entry = Inr log''"
  shows "\<exists>xs. map_of log' ''actions'' = Some (JList xs) \<and>
           map_of log'' ''actions'' = Some (JList (xs @ [entry]))"
  using assms
  by (auto simp add: log_append_action_def update_conv' split: option.splits json.splits)

lemma TriFingerPlatform_init_actions:
  "map_of (action_log (TriFingerPlatform_init w0 pose cams)) ''actions'' = Some (JList [])"
  by (simp add: TriFingerPlatform_init_def Let_def)

lemma fill_cameras_exactly_three:
  assumes "length images = 3"
  shows "fill_cameras (replicate 3 CameraObservation_init) 0 ts images =
           Inr (map (\<lambda>img. \<lparr>image = Some img, CameraObservation.timestamp = ts\<rparr>) images)"
proof -
  from assms obtain a b c where "images = [a, b, c]"
    by (auto simp add: length_Suc_conv numeral_3_eq_3)
  then show ?thesis
    by (simp add: numeral_3_eq_3 CameraObservation_init_def)
qed

lemma get_current_camera_observation_three:
  assumes "length (tricamera_get_images E (simfinger self)) = 3"
  shows "get_current_camera_observation E self t =
           Inr \<lparr>cameras =
                  map (\<lambda>img. \<lparr>image = Some img,
                               CameraObservation.timestamp =
                                 map_option (get_timestamp_ms E (simfinger self)) t\<rparr>)
                      (tricamera_get_images E (simfinger self))\<rparr>"
  using assms
  by (cases t)
     (simp_all add: get_current_camera_observation_def Let_def TriCameraObservation_init_def
        fill_cameras_exactly_three)

lemma append_desired_action_enable_cameras:
  assumes "append_desired_action E self action = Inr (t, self')"
  shows "enable_cameras self' = enable_cameras self"
proof (cases "enable_cameras self")
  case True
  with assms show ?thesis
    by (auto simp add: append_desired_action_cameras Let_def split: sum.splits prod.splits)
next
  case False
  with assms show ?thesis
    by (auto simp add: append_desired_action_no_cameras Let_def split: sum.splits prod.splits)
qed

lemma TriFingerPlatform_init_enable_cameras:
  "enable_cameras (TriFingerPlatform_init w0 pose cams) = cams"
  by (simp add: TriFingerPlatform_init_def Let_def)

text \<open>What a successful call leaves behind, when a call succeeds, and runs of calls.\<close>

lemma get_current_camera_observation_succeeds:
  assumes "three_cameras E"
  shows "\<exists>obs. get_current_camera_observation E self t = Inr obs"
  using assms by (simp add: three_cameras_def get_current_camera_observation_three)

lemma append_desired_action_Inr:
  assumes "append_desired_action E self action = Inr (t, self')"
  shows "t = fst (simfinger_append_desired_action E action (simfinger self))"
    and "simfinger self' = snd (simfinger_append_desired_action E action (simfinger self))"
    and "object_pose_t self' =
           Some ((get_current_object_pose E self None)
                   \<lparr>ObjectPose.timestamp := Some (get_timestamp_ms E (simfinger self') t / 1000)\<rparr>)"
    and "log_append_action (action_log self) (action_entry t action) = Inr (action_log self')"
    and "enable_cameras self \<Longrightarrow>
           \<exists>obs. get_current_camera_observation E self None = Inr obs \<and>
             camera_observation_t self' =
               Some (obs\<lparr>cameras :=
                       map (\<lambda>c. c\<lparr>CameraObservation.timestamp :=
                              Some (get_timestamp_ms E (simfinger self') t / 1000)\<rparr>)
                         (cameras obs)\<rparr>)"
proof -
  show "t = fst (simfinger_append_desired_action E action (simfinger self))"
    using assms
    by (cases "enable_cameras self")
       (auto simp add: append_desired_action_cameras append_desired_action_no_cameras Let_def
          split: sum.splits prod.splits)
  show "simfinger self' = snd (simfinger_append_desired_action E action (simfinger self))"
    using assms
    by (cases "enable_cameras self")
       (auto simp add: append_desired_action_cameras append_desired_action_no_cameras Let_def
          split: sum.splits prod.splits)
  show "object_pose_t self' =
           Some ((get_current_object_pose E self None)
                   \<lparr>ObjectPose.timestamp := Some (get_timestamp_ms E (simfinger self') t / 1000)\<rparr>)"
    using assms
    by (cases "enable_cameras self")
       (auto simp add: append_desired_action_cameras append_desired_action_no_cameras Let_def
          split: sum.splits prod.splits)
  show "log_append_action (action_log self) (action_entry t action) = Inr (action_log self')"
    using assms
    by (cases "enable_cameras self")
       (auto simp add: append_desired_action_cameras append_desired_action_no_cameras Let_def
          split: sum.splits prod.splits)
  show "\<exists>obs. get_current_camera_observation E self None = Inr obs \<and>
             camera_observation_t self' =
               Some (obs\<lparr>cameras :=
                       map (\<lambda>c. c\<lparr>CameraObservation.timestamp :=
                              Some (get_timestamp_ms E (simfinger self') t / 1000)\<rparr>)
                         (cameras obs)\<rparr>)" if "enable_cameras self"
    using assms that
    by (auto simp add: append_desired_action_cameras Let_def split: sum.splits prod.splits)
qed

lemma append_desired_action_succeeds:
  assumes "map_of (action_log self) ''actions'' = Some (JList xs)"
    and "enable_cameras self \<longrightarrow> three_cameras E"
  shows "\<exists>t self'. append_desired_action E self action = Inr (t, self')"
proof (cases "enable_cameras self")
  case True
  with assms(2) obtain obs where "get_current_camera_observation E self None = Inr obs"
    using get_current_camera_observation_succeeds by blast
  with True assms(1) show ?thesis
    by (simp add: append_desired_action_cameras Let_def log_append_action_actions
          split: prod.splits)
next
  case False
  with assms(1) show ?thesis
    by (simp add: append_desired_action_no_cameras Let_def log_append_action_actions
          split: prod.splits)
qed

lemma append_desired_action_actions:
  assumes "append_desired_action E self action = Inr (t, self')"
    and "map_of (action_log self) ''actions'' = Some (JList xs)"
  shows "map_of (action_log self') ''actions'' = Some (JList (xs @ [action_entry t action]))"
  using log_append_action_Inr [OF append_desired_action_Inr(4) [OF assms(1)]] assms(2)
  by auto



text \<open>What every state reached keeps, and what one call of \<open>append_desired_action\<close> sets.\<close>

lemma store_action_log_Inr:
  assumes "store_action_log E self filename files = Inr (self', files')"
  shows "simfinger self' = simfinger self"
    and "enable_cameras self' = enable_cameras self"
    and "object_pose_t self' = object_pose_t self"
    and "camera_observation_t self' = camera_observation_t self"
  using assms
  by (auto simp add: store_action_log_def Let_def split: sum.splits if_splits)

lemma reaches_enable_cameras:
  assumes "reaches E self0 n self"
  shows "enable_cameras self = enable_cameras self0"
  using assms
proof (induction rule: reaches.induct)
  case reaches_init
  show ?case by simp
next
  case (reaches_append n self action t self')
  then show ?case using append_desired_action_enable_cameras [OF reaches_append.hyps(2)] by simp
next
  case (reaches_store n self filename files self' files')
  then show ?case using store_action_log_Inr(2) [OF reaches_store.hyps(2)] by simp
qed

lemma reaches_caches:
  assumes "reaches E self0 n self" and "0 < n"
  shows "object_pose_t self \<noteq> None \<and>
         (enable_cameras self \<longrightarrow> camera_observation_t self \<noteq> None)"
  using assms
proof (induction rule: reaches.induct)
  case reaches_init
  then show ?case by simp
next
  case (reaches_append n self action t self')
  have "object_pose_t self' \<noteq> None"
    using append_desired_action_Inr(3) [OF reaches_append.hyps(2)] by simp
  moreover have "camera_observation_t self' \<noteq> None" if "enable_cameras self'"
  proof -
    from that have "enable_cameras self"
      using append_desired_action_enable_cameras [OF reaches_append.hyps(2)] by simp
    from append_desired_action_Inr(5) [OF reaches_append.hyps(2) this]
    show ?thesis by auto
  qed
  ultimately show ?case by blast
next
  case (reaches_store n self filename files self' files')
  then show ?case
    using store_action_log_Inr(2-4) [OF reaches_store.hyps(2)] by simp
qed

text \<open>The example collaborators meet the contracts.\<close>

lemma example_env_three_cameras: "three_cameras example_env"
  by (simp add: three_cameras_def example_env_def)

lemma example_env_stepper_returns_current: "stepper_returns_current example_env"
  by (simp add: stepper_returns_current_def example_env_def)

lemma example_env_stepper_advances_one: "stepper_advances_one example_env"
  by (simp add: stepper_advances_one_def example_env_def)

text \<open>The queries and the log, once the caches are set.\<close>

lemma get_object_pose_cached:
  assumes "object_pose_t self = Some pose"
  shows "get_object_pose E self t =
     (if t = get_current_timeindex E (simfinger self) then Inr pose
      else if t = get_current_timeindex E (simfinger self) + 1
      then Inr (get_current_object_pose E self (Some t))
      else Inl ValueError)"
  using assms by (simp add: get_object_pose_def Let_def)

lemma get_camera_observation_cached:
  assumes "enable_cameras self" and "camera_observation_t self = Some obs"
  shows "get_camera_observation E self t =
     (if t = get_current_timeindex E (simfinger self) then Inr obs
      else if t = get_current_timeindex E (simfinger self) + 1
      then get_current_camera_observation E self (Some t)
      else Inl ValueError)"
  using assms by (simp add: get_camera_observation_def Let_def)

lemma get_current_object_pose_None:
  "get_current_object_pose E self None =
     \<lparr>ObjectPose.position = fst (cube_get_state E (simfinger self)),
      orientation = snd (cube_get_state E (simfinger self)),
      ObjectPose.timestamp = None, confidence = 1\<rparr>"
  by (simp add: get_current_object_pose_def Let_def ObjectPose_init_def)

lemma get_current_object_pose_Some:
  "get_current_object_pose E self (Some t) =
     \<lparr>ObjectPose.position = fst (cube_get_state E (simfinger self)),
      orientation = snd (cube_get_state E (simfinger self)),
      ObjectPose.timestamp = Some (get_timestamp_ms E (simfinger self) t), confidence = 1\<rparr>"
  by (simp add: get_current_object_pose_def Let_def ObjectPose_init_def)


lemma action_entry_inject:
  "action_entry t action = action_entry t' action' \<longleftrightarrow> t = t' \<and> action = action'"
  by (cases action; cases action') (auto simp add: action_entry_def tolist_inject)

lemma example_env_simps:
  "get_current_timeindex example_env w = w"
  "get_timestamp_ms example_env w t = 4 * real_of_int t"
  "simfinger_append_desired_action example_env action w = (w + 1, w + 1)"
  "cube_get_state example_env w = ([0, 0, real_of_int w], [0, 0, 0, 1])"
  "tricamera_get_images example_env w = [60, 180, 300]"
  by (simp_all add: example_env_def)

lemma TriFingerPlatform_init_simfinger:
  "simfinger (TriFingerPlatform_init w0 pose cams) = w0"
  by (simp add: TriFingerPlatform_init_def Let_def)


section \<open>Facts about the connector\<close>

lemma BaseFinger_init_valid:
  assumes "map_of tbl name = Some (u, n)"
  shows "BaseFinger_init tbl sim pr name vis =
     (let pr1 = (if name = ''single'' \<or> name = ''tri''
                 then warnings_warn deprecation_message pr else pr);
          self = \<lparr>enable_visualization = vis, finger_type = name, urdf_file = u,
                  number_of_fingers = n,
                  link_names = fst (init_joint_lists n),
                  tip_link_names = snd (init_joint_lists n),
                  enable_simulation = sim\<rparr>
      in Inr (self, connect_to_simulation self pr1))"
  using assms
  by (simp add: BaseFinger_init_def check_finger_type_def set_finger_type_dependency_def
        get_finger_urdf_def get_number_of_fingers_def Let_def split: prod.splits)

lemma check_finger_type_Inr:
  assumes "check_finger_type tbl name = Inr checked"
  shows "\<exists>u n. map_of tbl name = Some (u, n)"
  using assms by (cases "map_of tbl name") (auto simp add: check_finger_type_def)

lemma init_joint_lists_length:
  "length (fst (init_joint_lists n)) = (if n = 1 then 3 else 9)"
  "length (snd (init_joint_lists n)) = (if n = 1 then 1 else 3)"
  by (simp_all add: init_joint_lists_def)

lemma connect_to_simulation_warnings:
  "warnings (connect_to_simulation self pr) = warnings pr"
  by (simp add: connect_to_simulation_def pybullet_connect_def)

section \<open>Properties\<close>

text \<open>
  C1.  In every state reached after at least one call of \<open>append_desired_action\<close>
  (from any state of the platform), and for every integer \<open>t\<close>:
  \<open>get_object_pose(t)\<close> returns a pose when \<open>t\<close> is the current time index or the
  current time index plus one, and raises \<open>ValueError\<close> for every other \<open>t\<close>; with
  cameras enabled (and cameras that deliver three images) the same holds of
  \<open>get_camera_observation(t)\<close>.
\<close>

theorem observations_valid_time_index:
  assumes "reaches E self0 n self" and "0 < n"
    and "enable_cameras self \<longrightarrow> three_cameras E"
  shows "(if t = get_current_timeindex E (simfinger self) \<or>
            t = get_current_timeindex E (simfinger self) + 1
          then \<exists>pose. get_object_pose E self t = Inr pose
          else get_object_pose E self t = Inl ValueError) \<and>
         (enable_cameras self \<longrightarrow>
           (if t = get_current_timeindex E (simfinger self) \<or>
               t = get_current_timeindex E (simfinger self) + 1
            then \<exists>obs. get_camera_observation E self t = Inr obs
            else get_camera_observation E self t = Inl ValueError))"
proof -
  from reaches_caches [OF assms(1,2)]
  obtain pose where "object_pose_t self = Some pose" by blast
  then have pose: "if t = get_current_timeindex E (simfinger self) \<or>
            t = get_current_timeindex E (simfinger self) + 1
          then \<exists>pose. get_object_pose E self t = Inr pose
          else get_object_pose E self t = Inl ValueError"
    by (simp add: get_object_pose_cached)
  have cams: "if t = get_current_timeindex E (simfinger self) \<or>
               t = get_current_timeindex E (simfinger self) + 1
            then \<exists>obs. get_camera_observation E self t = Inr obs
            else get_camera_observation E self t = Inl ValueError" if en: "enable_cameras self"
  proof -
    from reaches_caches [OF assms(1,2)] en
    obtain obs where "camera_observation_t self = Some obs" by blast
    moreover from en assms(3) have "three_cameras E" by simp
    then obtain obs' where
      "get_current_camera_observation E self (Some t) = Inr obs'"
      using get_current_camera_observation_succeeds by blast
    ultimately show ?thesis
      using en by (auto simp add: get_camera_observation_cached)
  qed
  from pose cams show ?thesis by blast
qed

text \<open>At current index 1: the indices 0 and 3 are refused, 1 and 2 are served.\<close>

theorem observations_valid_time_index_witness:
  "\<exists>self.
     reaches example_env (TriFingerPlatform_init 0 example_pose True) 1 self \<and>
     enable_cameras self \<and> three_cameras example_env \<and>
     get_current_timeindex example_env (simfinger self) = 1 \<and>
     get_object_pose example_env self 0 = Inl ValueError \<and>
     (\<exists>pose. get_object_pose example_env self 1 = Inr pose) \<and>
     (\<exists>pose. get_object_pose example_env self 2 = Inr pose) \<and>
     get_object_pose example_env self 3 = Inl ValueError \<and>
     get_camera_observation example_env self 0 = Inl ValueError \<and>
     (\<exists>obs. get_camera_observation example_env self 1 = Inr obs) \<and>
     (\<exists>obs. get_camera_observation example_env self 2 = Inr obs) \<and>
     get_camera_observation example_env self 3 = Inl ValueError"
proof -
  let ?p = "TriFingerPlatform_init 0 example_pose True :: (int, nat) TriFingerPlatform"
  have "enable_cameras ?p \<longrightarrow> three_cameras example_env"
    by (simp add: example_env_three_cameras)
  from append_desired_action_succeeds [OF TriFingerPlatform_init_actions this]
  obtain t0 self where
    h: "append_desired_action example_env ?p example_action = Inr (t0, self)"
    by blast
  have r: "reaches example_env ?p 1 self"
    using reaches_append [OF reaches_init h] by simp
  have n: "(0::nat) < 1" by simp
  have en: "enable_cameras self"
    using append_desired_action_enable_cameras [OF h]
    by (simp add: TriFingerPlatform_init_enable_cameras)
  have cur: "get_current_timeindex example_env (simfinger self) = 1"
    using append_desired_action_Inr(2) [OF h]
    by (simp add: example_env_def TriFingerPlatform_init_def Let_def)
  have c: "enable_cameras self \<longrightarrow> three_cameras example_env"
    by (simp add: example_env_three_cameras)
  show ?thesis
    using r en cur example_env_three_cameras
      observations_valid_time_index [OF r n c, of 0]
      observations_valid_time_index [OF r n c, of 1]
      observations_valid_time_index [OF r n c, of 2]
      observations_valid_time_index [OF r n c, of 3]
    by auto
qed

text \<open>
  C2.  For every action, on a platform whose log holds its list of actions (and,
  with cameras enabled, cameras that deliver three images): \<open>append_desired_action\<close>
  returns the index \<open>t\<close> the stepper returned; the cached pose is the cube's state
  in the world before the step, with confidence 1, and the cached camera
  observation holds the three images of the world before the step; both carry
  the timestamp \<open>get_timestamp_ms(t) / 1000\<close>, read after the step.  With a stepper
  that returns the index of the step just completed, \<open>get_object_pose(t)\<close> then
  returns that cached pose.
\<close>

theorem append_desired_action_samples_before_step:
  assumes "map_of (action_log self) ''actions'' = Some (JList xs)"
    and "enable_cameras self \<longrightarrow> three_cameras E"
    and "stepper_returns_current E"
  shows "\<exists>self'.
     (let w = simfinger self;
          (t, w') = simfinger_append_desired_action E action w;
          sample = \<lparr>ObjectPose.position = fst (cube_get_state E w),
                    orientation = snd (cube_get_state E w),
                    ObjectPose.timestamp = Some (get_timestamp_ms E w' t / 1000),
                    confidence = 1\<rparr>
      in append_desired_action E self action = Inr (t, self') \<and>
         simfinger self' = w' \<and>
         object_pose_t self' = Some sample \<and>
         (enable_cameras self \<longrightarrow>
            camera_observation_t self' =
              Some \<lparr>cameras =
                      map (\<lambda>img. \<lparr>image = Some img,
                                   CameraObservation.timestamp =
                                     Some (get_timestamp_ms E w' t / 1000)\<rparr>)
                          (tricamera_get_images E w)\<rparr>) \<and>
         get_object_pose E self' t = Inr sample)"
proof -
  from append_desired_action_succeeds [OF assms(1,2)]
  obtain t self' where h: "append_desired_action E self action = Inr (t, self')" by blast
  define w where "w = simfinger self"
  define w' where "w' = snd (simfinger_append_desired_action E action w)"
  define sample where "sample =
     \<lparr>ObjectPose.position = fst (cube_get_state E w), orientation = snd (cube_get_state E w),
      ObjectPose.timestamp = Some (get_timestamp_ms E w' t / 1000), confidence = 1\<rparr>"
  have t: "t = fst (simfinger_append_desired_action E action w)"
    using append_desired_action_Inr(1) [OF h] by (simp add: w_def)
  have sim: "simfinger self' = w'"
    using append_desired_action_Inr(2) [OF h] by (simp add: w_def w'_def)
  have pose: "object_pose_t self' = Some sample"
    using append_desired_action_Inr(3) [OF h]
    by (simp add: sim sample_def w_def get_current_object_pose_None)
  have cams: "camera_observation_t self' =
              Some \<lparr>cameras =
                      map (\<lambda>img. \<lparr>image = Some img,
                                   CameraObservation.timestamp =
                                     Some (get_timestamp_ms E w' t / 1000)\<rparr>)
                          (tricamera_get_images E w)\<rparr>" if en: "enable_cameras self"
  proof -
    from en assms(2) have "length (tricamera_get_images E (simfinger self)) = 3"
      by (simp add: three_cameras_def)
    from get_current_camera_observation_three [OF this, of None]
      append_desired_action_Inr(5) [OF h en]
    show ?thesis
      by (auto simp add: sim w_def comp_def)
  qed
  have "get_current_timeindex E (simfinger self') = t"
    using assms(3) by (simp add: stepper_returns_current_def sim w'_def t)
  with pose have get: "get_object_pose E self' t = Inr sample"
    by (simp add: get_object_pose_cached)
  have "simfinger_append_desired_action E action w = (t, w')"
    by (simp add: t w'_def)
  with h sim pose cams get show ?thesis
    unfolding w_def [symmetric] sample_def
    by (intro exI [of _ self']) (simp add: Let_def)
qed

text \<open>One step of the example stepper from the world 0, with cameras.\<close>

theorem append_desired_action_samples_before_step_witness:
  "\<exists>self'.
     append_desired_action example_env (TriFingerPlatform_init 0 example_pose True)
       example_action = Inr (1, self') \<and>
     simfinger self' = 1 \<and>
     object_pose_t self' =
       Some \<lparr>ObjectPose.position = [0, 0, 0], orientation = [0, 0, 0, 1],
             ObjectPose.timestamp = Some (4 / 1000), confidence = 1\<rparr> \<and>
     camera_observation_t self' =
       Some \<lparr>cameras =
               [\<lparr>image = Some 60, CameraObservation.timestamp = Some (4 / 1000)\<rparr>,
                \<lparr>image = Some 180, CameraObservation.timestamp = Some (4 / 1000)\<rparr>,
                \<lparr>image = Some 300, CameraObservation.timestamp = Some (4 / 1000)\<rparr>]\<rparr> \<and>
     get_object_pose example_env self' 1 =
       Inr \<lparr>ObjectPose.position = [0, 0, 0], orientation = [0, 0, 0, 1],
            ObjectPose.timestamp = Some (4 / 1000), confidence = 1\<rparr>"
proof -
  let ?p = "TriFingerPlatform_init 0 example_pose True :: (int, nat) TriFingerPlatform"
  have c0: "enable_cameras ?p \<longrightarrow> three_cameras example_env"
    by (simp add: example_env_three_cameras)
  from append_desired_action_samples_before_step
         [OF TriFingerPlatform_init_actions c0 example_env_stepper_returns_current,
          of example_action]
  show ?thesis
    by (simp add: Let_def example_env_simps TriFingerPlatform_init_simfinger
          TriFingerPlatform_init_enable_cameras)
qed



text \<open>
  C4.  Under the stepper's contract (a call advances the time index by one and
  returns the index of the step just completed), the time index the second of two
  consecutive calls of \<open>append_desired_action\<close> returns is the first one's plus
  one, hence strictly greater.
\<close>

theorem consecutive_time_indices:
  assumes "stepper_returns_current E" and "stepper_advances_one E"
    and "append_desired_action E self action1 = Inr (t1, self1)"
    and "append_desired_action E self1 action2 = Inr (t2, self2)"
  shows "t1 < t2 \<and> t2 = t1 + 1"
proof -
  have "t1 = get_current_timeindex E (simfinger self1)"
    using assms(1) append_desired_action_Inr(1,2) [OF assms(3)]
    by (simp add: stepper_returns_current_def)
  moreover have "t2 = get_current_timeindex E (simfinger self2)"
    using assms(1) append_desired_action_Inr(1,2) [OF assms(4)]
    by (simp add: stepper_returns_current_def)
  moreover have "get_current_timeindex E (simfinger self2) =
      get_current_timeindex E (simfinger self1) + 1"
    using assms(2) append_desired_action_Inr(2) [OF assms(4)]
    by (simp add: stepper_advances_one_def)
  ultimately show ?thesis by simp
qed

text \<open>Two consecutive steps of the example stepper.\<close>

theorem consecutive_time_indices_witness:
  "\<exists>t1 self1 t2 self2.
     stepper_returns_current example_env \<and> stepper_advances_one example_env \<and>
     append_desired_action example_env (TriFingerPlatform_init 0 example_pose False)
       example_action = Inr (t1, self1) \<and>
     append_desired_action example_env self1 example_action = Inr (t2, self2) \<and>
     t1 < t2 \<and> t2 = t1 + 1"
proof -
  let ?p = "TriFingerPlatform_init 0 example_pose False :: (int, nat) TriFingerPlatform"
  have c0: "enable_cameras ?p \<longrightarrow> three_cameras example_env"
    by (simp add: example_env_three_cameras)
  from append_desired_action_succeeds [OF TriFingerPlatform_init_actions c0]
  obtain t1 self1 where
    h1: "append_desired_action example_env ?p example_action = Inr (t1, self1)"
    by blast
  have c1: "enable_cameras self1 \<longrightarrow> three_cameras example_env"
    by (simp add: example_env_three_cameras)
  from append_desired_action_succeeds
         [OF append_desired_action_actions [OF h1 TriFingerPlatform_init_actions] c1]
  obtain t2 self2 where
    h2: "append_desired_action example_env self1 example_action = Inr (t2, self2)"
    by blast
  from consecutive_time_indices
         [OF example_env_stepper_returns_current example_env_stepper_advances_one h1 h2]
  show ?thesis
    using h1 h2 example_env_stepper_returns_current example_env_stepper_advances_one
    by blast
qed

text \<open>
  C5.  In every state of a platform constructed with \<open>enable_cameras=False\<close>,
  \<open>get_camera_observation(t)\<close> raises the cameras-disabled error (\<open>RuntimeError\<close>)
  for every \<open>t\<close>, valid time index or not.
\<close>

theorem get_camera_observation_cameras_disabled:
  assumes "reaches E (TriFingerPlatform_init w0 pose False) n self"
  shows "get_camera_observation E self t = Inl RuntimeError"
proof -
  have "enable_cameras self = False"
    using reaches_enable_cameras [OF assms]
    by (simp add: TriFingerPlatform_init_enable_cameras)
  then show ?thesis
    by (simp add: get_camera_observation_def)
qed

text \<open>After one action on a platform without cameras: the indices 1 and 2 are valid.\<close>

theorem get_camera_observation_cameras_disabled_witness:
  "\<exists>self.
     reaches example_env (TriFingerPlatform_init 0 example_pose False) 1 self \<and>
     get_current_timeindex example_env (simfinger self) = 1 \<and>
     get_camera_observation example_env self 1 = Inl RuntimeError \<and>
     get_camera_observation example_env self 2 = Inl RuntimeError \<and>
     get_camera_observation example_env self 7 = Inl RuntimeError"
proof -
  let ?p = "TriFingerPlatform_init 0 example_pose False :: (int, nat) TriFingerPlatform"
  have "enable_cameras ?p \<longrightarrow> three_cameras example_env"
    by (simp add: example_env_three_cameras)
  from append_desired_action_succeeds [OF TriFingerPlatform_init_actions this]
  obtain t self where
    h: "append_desired_action example_env ?p example_action = Inr (t, self)"
    by blast
  have r: "reaches example_env ?p 1 self"
    using reaches_append [OF reaches_init h] by simp
  from append_desired_action_Inr(2) [OF h]
  have "get_current_timeindex example_env (simfinger self) = 1"
    by (simp add: example_env_def TriFingerPlatform_init_def Let_def)
  with r show ?thesis
    using get_camera_observation_cameras_disabled [OF r] by blast
qed

text \<open>
  C6.  For every valid finger type (one \<open>check_finger_type\<close> accepts), the
  construction succeeds, and the lists \<open>__init_joint_lists\<close> builds have 3 link
  names and 1 tip-link name when the number of fingers is 1, and 9 link names and
  3 tip-link names when it is 3.
\<close>

theorem init_joint_lists_lengths:
  assumes "check_finger_type tbl name = Inr checked"
  shows "\<exists>self pr'.
           BaseFinger_init tbl sim pr name vis = Inr (self, pr') \<and>
           get_number_of_fingers tbl name = Inr (number_of_fingers self) \<and>
           (link_names self, tip_link_names self) = init_joint_lists (number_of_fingers self) \<and>
           (number_of_fingers self = 1 \<longrightarrow>
              length (link_names self) = 3 \<and> length (tip_link_names self) = 1) \<and>
           (number_of_fingers self = 3 \<longrightarrow>
              length (link_names self) = 9 \<and> length (tip_link_names self) = 3)"
proof -
  from check_finger_type_Inr [OF assms] obtain u n where tbl: "map_of tbl name = Some (u, n)"
    by blast
  define self where "self =
    \<lparr>enable_visualization = vis, finger_type = name, urdf_file = u, number_of_fingers = n,
     link_names = fst (init_joint_lists n), tip_link_names = snd (init_joint_lists n),
     enable_simulation = sim\<rparr>"
  have "\<exists>pr'. BaseFinger_init tbl sim pr name vis = Inr (self, pr')"
    by (simp add: BaseFinger_init_valid [OF tbl] Let_def self_def)
  moreover have "get_number_of_fingers tbl name = Inr (number_of_fingers self)"
    by (simp add: get_number_of_fingers_def tbl self_def)
  moreover have "(link_names self, tip_link_names self) = init_joint_lists (number_of_fingers self)"
    by (simp add: self_def)
  moreover have "number_of_fingers self = 1 \<longrightarrow>
      length (link_names self) = 3 \<and> length (tip_link_names self) = 1"
    by (simp add: self_def init_joint_lists_length)
  moreover have "number_of_fingers self = 3 \<longrightarrow>
      length (link_names self) = 9 \<and> length (tip_link_names self) = 3"
    by (simp add: self_def init_joint_lists_length)
  ultimately show ?thesis by blast
qed

text \<open>A three-finger and a one-finger type of the example table.\<close>

theorem init_joint_lists_lengths_witness:
  "\<exists>three pr3 one pr1.
     BaseFinger_init example_finger_types_data True example_process ''trifingerpro'' False
       = Inr (three, pr3) \<and>
     number_of_fingers three = 3 \<and>
     length (link_names three) = 9 \<and> length (tip_link_names three) = 3 \<and>
     BaseFinger_init example_finger_types_data True example_process ''fingerone'' False
       = Inr (one, pr1) \<and>
     number_of_fingers one = 1 \<and>
     length (link_names one) = 3 \<and> length (tip_link_names one) = 1"
proof -
  have "check_finger_type example_finger_types_data ''trifingerpro'' = Inr ''trifingerpro''"
    by (simp add: check_finger_type_def example_finger_types_data_def)
  from init_joint_lists_lengths [OF this, of True example_process False]
  obtain three pr3 where
    "BaseFinger_init example_finger_types_data True example_process ''trifingerpro'' False
       = Inr (three, pr3)"
    "number_of_fingers three = 3"
    "length (link_names three) = 9 \<and> length (tip_link_names three) = 3"
    by (auto simp add: get_number_of_fingers_def example_finger_types_data_def)
  moreover
  have "check_finger_type example_finger_types_data ''fingerone'' = Inr ''fingerone''"
    by (simp add: check_finger_type_def example_finger_types_data_def)
  from init_joint_lists_lengths [OF this, of True example_process False]
  obtain one pr1 where
    "BaseFinger_init example_finger_types_data True example_process ''fingerone'' False
       = Inr (one, pr1)"
    "number_of_fingers one = 1"
    "length (link_names one) = 3 \<and> length (tip_link_names one) = 1"
    by (auto simp add: get_number_of_fingers_def example_finger_types_data_def)
  ultimately show ?thesis by blast
qed

text \<open>
  C7.  Constructing with a deprecated finger type (\<open>'single'\<close> or \<open>'tri'\<close>) that the
  table lists is not an error: exactly one warning is emitted, and the link and
  tip-link names are those of any non-deprecated type with the same number of
  fingers (9 and 3 names for three fingers, 3 and 1 for one), whose construction
  emits no warning.
\<close>

theorem deprecated_finger_type_topology:
  assumes "deprecated = ''single'' \<or> deprecated = ''tri''"
    and "map_of tbl deprecated = Some (u, n)"
    and "current \<noteq> ''single''" and "current \<noteq> ''tri''"
    and "map_of tbl current = Some (v, n)"
  shows "\<exists>self_d pr_d self_c pr_c.
     BaseFinger_init tbl sim pr deprecated vis = Inr (self_d, pr_d) \<and>
     warnings pr_d = warnings pr @ [deprecation_message] \<and>
     BaseFinger_init tbl sim pr current vis = Inr (self_c, pr_c) \<and>
     warnings pr_c = warnings pr \<and>
     link_names self_d = link_names self_c \<and>
     tip_link_names self_d = tip_link_names self_c \<and>
     (n = 1 \<longrightarrow> length (link_names self_d) = 3 \<and> length (tip_link_names self_d) = 1) \<and>
     (n = 3 \<longrightarrow> length (link_names self_d) = 9 \<and> length (tip_link_names self_d) = 3)"
proof -
  define self_d where "self_d =
    \<lparr>enable_visualization = vis, finger_type = deprecated, urdf_file = u, number_of_fingers = n,
     link_names = fst (init_joint_lists n), tip_link_names = snd (init_joint_lists n),
     enable_simulation = sim\<rparr>"
  define self_c where "self_c =
    \<lparr>enable_visualization = vis, finger_type = current, urdf_file = v, number_of_fingers = n,
     link_names = fst (init_joint_lists n), tip_link_names = snd (init_joint_lists n),
     enable_simulation = sim\<rparr>"
  define pr_d where
    "pr_d = connect_to_simulation self_d (warnings_warn deprecation_message pr)"
  define pr_c where "pr_c = connect_to_simulation self_c pr"
  have "BaseFinger_init tbl sim pr deprecated vis = Inr (self_d, pr_d)"
    using assms(1) by (auto simp add: BaseFinger_init_valid [OF assms(2)] Let_def self_d_def pr_d_def)
  moreover have "warnings pr_d = warnings pr @ [deprecation_message]"
    by (simp add: pr_d_def connect_to_simulation_warnings warnings_warn_def)
  moreover have "BaseFinger_init tbl sim pr current vis = Inr (self_c, pr_c)"
    using assms(3,4) by (simp add: BaseFinger_init_valid [OF assms(5)] Let_def self_c_def pr_c_def)
  moreover have "warnings pr_c = warnings pr"
    by (simp add: pr_c_def connect_to_simulation_warnings)
  moreover have "link_names self_d = link_names self_c"
    and "tip_link_names self_d = tip_link_names self_c"
    by (simp_all add: self_d_def self_c_def)
  moreover have "n = 1 \<longrightarrow> length (link_names self_d) = 3 \<and> length (tip_link_names self_d) = 1"
    and "n = 3 \<longrightarrow> length (link_names self_d) = 9 \<and> length (tip_link_names self_d) = 3"
    by (simp_all add: self_d_def init_joint_lists_length)
  ultimately show ?thesis by blast
qed

text \<open>The deprecated \<open>'tri'\<close> next to \<open>'trifingerone'\<close> in the example table.\<close>

theorem deprecated_finger_type_topology_witness:
  "\<exists>tri pr_tri trifingerone pr_one.
     BaseFinger_init example_finger_types_data True example_process ''tri'' False
       = Inr (tri, pr_tri) \<and>
     warnings pr_tri = [deprecation_message] \<and>
     BaseFinger_init example_finger_types_data True example_process ''trifingerone'' False
       = Inr (trifingerone, pr_one) \<and>
     warnings pr_one = [] \<and>
     link_names tri = link_names trifingerone \<and>
     tip_link_names tri = tip_link_names trifingerone \<and>
     length (link_names tri) = 9 \<and> length (tip_link_names tri) = 3"
proof -
  have d: "''tri'' = ''single'' \<or> ''tri'' = ''tri''" by simp
  have a: "map_of example_finger_types_data ''tri'' = Some (''trifinger.urdf'', 3)"
    by (simp add: example_finger_types_data_def)
  have b: "map_of example_finger_types_data ''trifingerone'' = Some (''trifinger.urdf'', 3)"
    by (simp add: example_finger_types_data_def)
  have c: "''trifingerone'' \<noteq> ''single''" "''trifingerone'' \<noteq> ''tri''" by simp_all
  from deprecated_finger_type_topology [OF d a c b, of True example_process False]
  show ?thesis by (simp add: example_process_def)
qed

text \<open>
  C8.  Disconnecting is idempotent: from every connector state and every state of
  the backend's connection, \<open>_disconnect_from_simulation\<close> raises no error and
  leaves the flag \<open>enable_simulation\<close> false, and a second call raises no error
  and changes nothing (so the flag is false after it as well).
\<close>

theorem disconnect_from_simulation_idempotent:
  "\<exists>self1 pr1.
     disconnect_from_simulation self pr = Inr (self1, pr1) \<and>
     enable_simulation self1 = False \<and>
     disconnect_from_simulation self1 pr1 = Inr (self1, pr1)"
  by (simp add: disconnect_from_simulation_def pybullet_isConnected_def pybullet_disconnect_def)

text \<open>A connected, enabled connector.\<close>

theorem disconnect_from_simulation_idempotent_witness:
  "\<exists>self1 pr1.
     disconnect_from_simulation
       \<lparr>enable_visualization = False, finger_type = ''fingerone'', urdf_file = ''finger.urdf'',
        number_of_fingers = 1, link_names = fst (init_joint_lists 1),
        tip_link_names = snd (init_joint_lists 1), enable_simulation = True\<rparr>
       \<lparr>pybullet_connection = Some DIRECT, warnings = []\<rparr> = Inr (self1, pr1) \<and>
     enable_simulation self1 = False \<and>
     pybullet_connection pr1 = None \<and>
     disconnect_from_simulation self1 pr1 = Inr (self1, pr1)"
proof -
  let ?s = "\<lparr>enable_visualization = False, finger_type = ''fingerone'',
        urdf_file = ''finger.urdf'',
        number_of_fingers = 1, link_names = fst (init_joint_lists 1),
        tip_link_names = snd (init_joint_lists 1), enable_simulation = True\<rparr>"
  let ?pr = "\<lparr>pybullet_connection = Some DIRECT, warnings = []\<rparr>"
  from disconnect_from_simulation_idempotent [of ?s ?pr]
  obtain self1 pr1 where h: "disconnect_from_simulation ?s ?pr = Inr (self1, pr1)"
    "enable_simulation self1 = False" "disconnect_from_simulation self1 pr1 = Inr (self1, pr1)"
    by blast
  from h(1) have "pybullet_connection pr1 = None"
    by (auto simp add: disconnect_from_simulation_def pybullet_isConnected_def
          pybullet_disconnect_def)
  with h show ?thesis by blast
qed

text \<open>
  C9.  After a call of \<open>append_desired_action\<close> (with a stepper that returns the
  index of the step just completed), the pose \<open>get_object_pose\<close> returns for the
  current time index carries the timestamp \<open>get_timestamp_ms(t) / 1000\<close>, while the
  pose it returns for the current time index plus one carries
  \<open>get_timestamp_ms(t)\<close>, undivided; with cameras enabled the same holds of the
  three cameras of the observation \<open>get_camera_observation\<close> returns.
\<close>

theorem timestamp_units_differ:
  assumes "append_desired_action E self0 action = Inr (t0, self)"
    and "stepper_returns_current E"
    and "enable_cameras self \<longrightarrow> three_cameras E"
  shows "\<exists>cached fresh.
     (let w = simfinger self; current_t = get_current_timeindex E w
      in get_object_pose E self current_t = Inr cached \<and>
         ObjectPose.timestamp cached = Some (get_timestamp_ms E w current_t / 1000) \<and>
         get_object_pose E self (current_t + 1) = Inr fresh \<and>
         ObjectPose.timestamp fresh = Some (get_timestamp_ms E w (current_t + 1)) \<and>
         (enable_cameras self \<longrightarrow>
            (\<exists>cached_obs fresh_obs.
               get_camera_observation E self current_t = Inr cached_obs \<and>
               map CameraObservation.timestamp (cameras cached_obs) =
                 replicate 3 (Some (get_timestamp_ms E w current_t / 1000)) \<and>
               get_camera_observation E self (current_t + 1) = Inr fresh_obs \<and>
               map CameraObservation.timestamp (cameras fresh_obs) =
                 replicate 3 (Some (get_timestamp_ms E w (current_t + 1))))))"
proof -
  define w where "w = simfinger self"
  define current_t where "current_t = get_current_timeindex E w"
  have t0: "t0 = current_t"
    using assms(2) append_desired_action_Inr(1,2) [OF assms(1)]
    by (simp add: stepper_returns_current_def current_t_def w_def)
  define cached where "cached = (get_current_object_pose E self0 None)
      \<lparr>ObjectPose.timestamp := Some (get_timestamp_ms E w current_t / 1000)\<rparr>"
  define fresh where "fresh = get_current_object_pose E self (Some (current_t + 1))"
  have pose: "object_pose_t self = Some cached"
    using append_desired_action_Inr(3) [OF assms(1)] by (simp add: cached_def t0 w_def)
  have c1: "get_object_pose E self current_t = Inr cached"
    by (simp add: get_object_pose_cached [OF pose] current_t_def w_def)
  have c2: "ObjectPose.timestamp cached = Some (get_timestamp_ms E w current_t / 1000)"
    by (simp add: cached_def)
  have f1: "get_object_pose E self (current_t + 1) = Inr fresh"
    by (simp add: get_object_pose_cached [OF pose] current_t_def w_def fresh_def)
  have f2: "ObjectPose.timestamp fresh = Some (get_timestamp_ms E w (current_t + 1))"
    by (simp add: fresh_def get_current_object_pose_Some w_def)
  have cams: "\<exists>cached_obs fresh_obs.
               get_camera_observation E self current_t = Inr cached_obs \<and>
               map CameraObservation.timestamp (cameras cached_obs) =
                 replicate 3 (Some (get_timestamp_ms E w current_t / 1000)) \<and>
               get_camera_observation E self (current_t + 1) = Inr fresh_obs \<and>
               map CameraObservation.timestamp (cameras fresh_obs) =
                 replicate 3 (Some (get_timestamp_ms E w (current_t + 1)))"
    if en: "enable_cameras self"
  proof -
    from en assms(3) have three: "three_cameras E" by simp
    from en have en0: "enable_cameras self0"
      using append_desired_action_enable_cameras [OF assms(1)] by simp
    have len0: "length (tricamera_get_images E (simfinger self0)) = 3"
      using three by (simp add: three_cameras_def)
    have len: "length (tricamera_get_images E (simfinger self)) = 3"
      using three by (simp add: three_cameras_def)
    define cached_obs :: "'b TriCameraObservation" where "cached_obs =
      \<lparr>cameras = map (\<lambda>img. \<lparr>image = Some img,
                        CameraObservation.timestamp =
                          Some (get_timestamp_ms E w current_t / 1000)\<rparr>)
                    (tricamera_get_images E (simfinger self0))\<rparr>"
    define fresh_obs :: "'b TriCameraObservation" where "fresh_obs =
      \<lparr>cameras = map (\<lambda>img. \<lparr>image = Some img,
                        CameraObservation.timestamp =
                          Some (get_timestamp_ms E w (current_t + 1))\<rparr>)
                    (tricamera_get_images E (simfinger self))\<rparr>"
    have obs: "camera_observation_t self = Some cached_obs"
      using append_desired_action_Inr(5) [OF assms(1) en0]
        get_current_camera_observation_three [OF len0, of None]
      by (auto simp add: cached_obs_def t0 w_def comp_def)
    have "get_camera_observation E self current_t = Inr cached_obs"
      by (simp add: get_camera_observation_cached [OF en obs] current_t_def w_def)
    moreover have "map CameraObservation.timestamp (cameras cached_obs) =
        replicate 3 (Some (get_timestamp_ms E w current_t / 1000))"
      using len0 by (simp add: cached_obs_def comp_def map_replicate_const)
    moreover have "get_camera_observation E self (current_t + 1) = Inr fresh_obs"
      by (simp add: get_camera_observation_cached [OF en obs] current_t_def w_def
            get_current_camera_observation_three [OF len] fresh_obs_def)
    moreover have "map CameraObservation.timestamp (cameras fresh_obs) =
        replicate 3 (Some (get_timestamp_ms E w (current_t + 1)))"
      using len by (simp add: fresh_obs_def comp_def map_replicate_const w_def)
    ultimately show ?thesis by blast
  qed
  from c1 c2 f1 f2 cams show ?thesis
    unfolding current_t_def w_def Let_def by blast
qed

text \<open>
  The same index 2, served first as the next index (8, in milliseconds) and after
  another step as the current one (8 / 1000, in seconds).
\<close>

theorem timestamp_units_differ_witness:
  "\<exists>t1 self1 t2 self2 fresh cached.
     append_desired_action example_env (TriFingerPlatform_init 0 example_pose False)
       example_action = Inr (t1, self1) \<and>
     append_desired_action example_env self1 example_action = Inr (t2, self2) \<and>
     get_current_timeindex example_env (simfinger self1) = 1 \<and>
     get_object_pose example_env self1 2 = Inr fresh \<and>
     ObjectPose.timestamp fresh = Some 8 \<and>
     get_current_timeindex example_env (simfinger self2) = 2 \<and>
     get_object_pose example_env self2 2 = Inr cached \<and>
     ObjectPose.timestamp cached = Some (8 / 1000)"
proof -
  let ?p = "TriFingerPlatform_init 0 example_pose False :: (int, nat) TriFingerPlatform"
  have c0: "enable_cameras ?p \<longrightarrow> three_cameras example_env"
    by (simp add: example_env_three_cameras)
  from append_desired_action_succeeds [OF TriFingerPlatform_init_actions c0]
  obtain t1 self1 where
    h1: "append_desired_action example_env ?p example_action = Inr (t1, self1)"
    by blast
  have c1: "enable_cameras self1 \<longrightarrow> three_cameras example_env"
    by (simp add: example_env_three_cameras)
  from append_desired_action_succeeds
         [OF append_desired_action_actions [OF h1 TriFingerPlatform_init_actions] c1]
  obtain t2 self2 where
    h2: "append_desired_action example_env self1 example_action = Inr (t2, self2)"
    by blast
  have c2: "enable_cameras self2 \<longrightarrow> three_cameras example_env"
    by (simp add: example_env_three_cameras)
  have cur1: "simfinger self1 = 1"
    using append_desired_action_Inr(2) [OF h1]
    by (simp add: example_env_simps TriFingerPlatform_init_simfinger)
  have cur2: "simfinger self2 = 2"
    using append_desired_action_Inr(2) [OF h2] cur1
    by (simp add: example_env_simps)
  from timestamp_units_differ [OF h1 example_env_stepper_returns_current c1]
  obtain fresh where "get_object_pose example_env self1 2 = Inr fresh"
    and "ObjectPose.timestamp fresh = Some 8"
    by (auto simp add: Let_def cur1 example_env_simps)
  moreover
  from timestamp_units_differ [OF h2 example_env_stepper_returns_current c2]
  obtain cached where "get_object_pose example_env self2 2 = Inr cached"
    and "ObjectPose.timestamp cached = Some (8 / 1000)"
    by (auto simp add: Let_def cur2 example_env_simps)
  ultimately show ?thesis
    using h1 h2 cur1 cur2 by (simp add: example_env_simps)
qed

text \<open>
  C10.  On a freshly constructed platform the caches are unset: \<open>get_object_pose\<close>
  at the current time index and \<open>store_action_log\<close> fail with the attribute error
  for \<open>_object_pose_t\<close>, and with cameras enabled \<open>get_camera_observation\<close> at
  the current time index fails with the one for \<open>_camera_observation_t\<close>, although
  the index is valid.
\<close>

theorem fresh_platform_caches_unset:
  "get_object_pose E (TriFingerPlatform_init w0 pose cams) (get_current_timeindex E w0)
     = Inl (AttributeError ''_object_pose_t'') \<and>
   store_action_log E (TriFingerPlatform_init w0 pose cams) filename files
     = Inl (AttributeError ''_object_pose_t'') \<and>
   get_camera_observation E (TriFingerPlatform_init w0 pose True) (get_current_timeindex E w0)
     = Inl (AttributeError ''_camera_observation_t'')"
  by (simp add: get_object_pose_def store_action_log_def get_camera_observation_def
        TriFingerPlatform_init_def Let_def)

text \<open>The example platform, right after its construction.\<close>

theorem fresh_platform_caches_unset_witness:
  "get_object_pose example_env
      (TriFingerPlatform_init 0 example_pose False :: (int, nat) TriFingerPlatform) 0
     = Inl (AttributeError ''_object_pose_t'') \<and>
   store_action_log example_env
      (TriFingerPlatform_init 0 example_pose False :: (int, nat) TriFingerPlatform)
      ''log.json'' Map.empty
     = Inl (AttributeError ''_object_pose_t'') \<and>
   get_camera_observation example_env
      (TriFingerPlatform_init 0 example_pose True :: (int, nat) TriFingerPlatform) 0
     = Inl (AttributeError ''_camera_observation_t'')"
  using fresh_platform_caches_unset [of example_env 0 example_pose False "''log.json''" Map.empty]
  by (simp add: example_env_simps)

end
